theory Spec2Isabelle
  imports Complex_Main
begin

section \<open>PollingBlockTracker: data model\<close>

text \<open>
  A shallow embedding of \<^verbatim>\<open>src/PollingBlockTracker.ts\<close>. JavaScript numbers are
  modelled as rationals (timer durations; \<^verbatim>\<open>NaN\<close> and the infinities are not
  represented), an optional property as an \<open>option\<close> (\<open>None\<close> is \<^verbatim>\<open>undefined\<close>),
  a thrown or rejected value as a value of type \<open>js_value\<close>, and every effect of the
  asynchronous code (a request sent, an event emitted, a timer set) as an entry of a trace.
  Private members \<^verbatim>\<open>this._x\<close> are the record fields \<open>this_x\<close>; the methods
  \<^verbatim>\<open>_synchronize\<close>, \<^verbatim>\<open>_updateLatestBlock\<close>, \<^verbatim>\<open>_fetchLatestBlock\<close> and
  \<^verbatim>\<open>_newPotentialLatest\<close> drop the leading underscore, which an Isabelle name cannot
  start with.
\<close>

type_synonym number = rat

text \<open>The provider is an object reference; what its \<^verbatim>\<open>sendAsync\<close> does at a given
  call is an input of that call (\<open>fetch_env\<close> below).\<close>

datatype Provider = Provider nat

text \<open>\<^verbatim>\<open>PollingBlockTrackerOptions\<close>: every property is optional.\<close>

record PollingBlockTrackerOptions =
  provider :: "Provider option"
  pollingInterval :: "number option"
  retryTimeout :: "number option"
  keepEventLoopActive :: "bool option"
  setSkipCacheFlag :: "bool option"
  blockResetDuration :: "number option"

text \<open>\<^verbatim>\<open>ExtendedJsonRpcRequest\<close>: \<open>skipCache = None\<close> is a request object without
  that key.\<close>

record JsonRpcRequest =
  jsonrpc :: string
  id' :: nat
  method' :: string
  params :: "string list"
  skipCache :: "bool option"

text \<open>\<^verbatim>\<open>JsonRpcResponse\<close>, as the imported type declares it: a success carries
  \<^verbatim>\<open>result\<close> and no \<^verbatim>\<open>error\<close> key, a failure carries an \<^verbatim>\<open>error\<close> object with
  a numeric code and a message.\<close>

record JsonRpcError =
  code :: int
  message :: string

datatype JsonRpcResponse = JsonRpcSuccess string | JsonRpcFailure JsonRpcError

text \<open>
  What a \<^verbatim>\<open>catch (error: any)\<close> can receive:
  \<^item> \<open>JsNullish\<close>: \<^verbatim>\<open>null\<close> or \<^verbatim>\<open>undefined\<close> (reading a property of it throws);
  \<^item> \<open>JsString s\<close>: a primitive, given by its string rendering (it has neither a
    \<^verbatim>\<open>stack\<close> nor a \<^verbatim>\<open>message\<close>);
  \<^item> \<open>JsObject stack message rendering\<close>: an object made elsewhere, with its
    \<^verbatim>\<open>stack\<close> and \<^verbatim>\<open>message\<close> properties where it has them, and the string it
    renders to in a template literal;
  \<^item> \<open>JsError m\<close>: the object made by \<^verbatim>\<open>new Error(m)\<close> in this file. Its
    \<^verbatim>\<open>stack\<close> is attached by the engine and is asked from the environment where
    the code reads it.
\<close>

datatype js_value =
    JsNullish
  | JsString string
  | JsObject "string option" "string option" string
  | JsError string

text \<open>\<^verbatim>\<open>pify((cb) => this._provider.sendAsync(req, cb))()\<close>: the promise resolves with
  the response, or rejects with what \<^verbatim>\<open>sendAsync\<close> threw or passed as the callback's
  error.\<close>

datatype pify_outcome = Resolves JsonRpcResponse | Rejects js_value

datatype payload =
    NoArgs
  | Block string
  | Sync "string option" string
  | Err js_value

datatype effect =
    SendAsync JsonRpcRequest
  | Emit string payload
  | SetTimeout number bool

text \<open>A listener handle of the subscription ledger (spec, section 3): an identity and
  the fire-once flag.\<close>

record handle =
  ident :: nat
  fire_once :: bool

text \<open>
  The tracker object. The first five fields are the private members of
  \<^verbatim>\<open>PollingBlockTracker\<close>; \<open>super_blockResetDuration\<close> is the argument the
  constructor passes to \<^verbatim>\<open>super\<close>; \<open>this_isRunning\<close> is the inherited
  \<^verbatim>\<open>_isRunning\<close> the poll loop reads. The remaining fields are the state of the base
  tracker, which is not among the sources and is modelled from the spec (sections 3
  and 4): the cached value, the subscription ledger (event kind to ordered listener
  handles), the supply of handle identities and the pending eviction timer.
\<close>

record PollingBlockTracker =
  this_provider :: Provider
  this_pollingInterval :: number
  this_retryTimeout :: number
  this_keepEventLoopActive :: bool
  this_setSkipCacheFlag :: bool
  super_blockResetDuration :: "number option"
  this_isRunning :: bool
  this_currentBlock :: "string option"
  ledger :: "string \<Rightarrow> handle list"
  next_ident :: nat
  eviction_timer :: "number option"

text \<open>The inputs of one fetch: the value of \<^verbatim>\<open>createRandomId()\<close> and the behaviour
  of the provider at this call.\<close>

record fetch_env =
  createRandomId :: nat
  sendAsync :: "JsonRpcRequest \<Rightarrow> pify_outcome"

text \<open>
  The inputs of one iteration of the poll loop: those of its fetch, the \<^verbatim>\<open>stack\<close>
  property the engine gives to \<^verbatim>\<open>new Error(m)\<close> (\<open>None\<close> where it gives none), and
  what other code (listeners added or removed, \<^verbatim>\<open>destroy\<close>) does to the running flag
  while the iteration is suspended in its fetch, respectively in its sleep: \<open>None\<close>
  when the flag is not assigned, \<open>Some b\<close> when the last assignment leaves it at \<open>b\<close>.
  A stop followed by a restart during one suspension is \<open>Some True\<close>.
\<close>

record poll_env = fetch_env +
  error_stack :: "string \<Rightarrow> string option"
  assigned_during_fetch :: "bool option"
  assigned_during_sleep :: "bool option"

section \<open>The constructor\<close>

definition sec :: number where
  "sec = 1000"

text \<open>\<^verbatim>\<open>a || b\<close> on an optional number: \<^verbatim>\<open>undefined\<close> and \<^verbatim>\<open>0\<close> are falsy.\<close>

definition or_number :: "number option \<Rightarrow> number \<Rightarrow> number" where
  "or_number a b = (case a of None \<Rightarrow> b | Some x \<Rightarrow> if x = 0 then b else x)"

text \<open>\<^verbatim>\<open>a || false\<close> on an optional boolean.\<close>

definition or_false :: "bool option \<Rightarrow> bool" where
  "or_false a = (case a of None \<Rightarrow> False | Some b \<Rightarrow> b)"

text \<open>\<^verbatim>\<open>a ?? b\<close>: only \<^verbatim>\<open>undefined\<close> (or \<^verbatim>\<open>null\<close>) falls through.\<close>

definition nullish_coalesce :: "'a option \<Rightarrow> 'a option \<Rightarrow> 'a option" where
  "nullish_coalesce a b = (case a of None \<Rightarrow> b | Some x \<Rightarrow> Some x)"

text \<open>The default parameter \<^verbatim>\<open>opts = {}\<close>.\<close>

definition empty_options :: PollingBlockTrackerOptions where
  "empty_options = \<lparr> provider = None, pollingInterval = None, retryTimeout = None,
     keepEventLoopActive = None, setSkipCacheFlag = None, blockResetDuration = None \<rparr>"

text \<open>
  \<^verbatim>\<open>new PollingBlockTracker(opts)\<close>; \<open>None\<close> is a call without argument. The base
  constructor's part (not running, no cached value, no listener, no timer) follows the
  spec's lifecycle: the cache value is created null and the controller starts in
  \<^verbatim>\<open>Stopped\<close>.
\<close>

definition new_PollingBlockTracker ::
  "PollingBlockTrackerOptions option \<Rightarrow> js_value + PollingBlockTracker" where
  "new_PollingBlockTracker arg =
     (let opts = (case arg of None \<Rightarrow> empty_options | Some given \<Rightarrow> given) in
      case provider opts of
        None \<Rightarrow> Inl (JsError ''PollingBlockTracker - no provider specified.'')
      | Some p \<Rightarrow>
          (let the_pollingInterval = or_number (pollingInterval opts) (20 * sec) in
           Inr \<lparr> this_provider = p,
                 this_pollingInterval = the_pollingInterval,
                 this_retryTimeout = or_number (retryTimeout opts) (the_pollingInterval / 10),
                 this_keepEventLoopActive =
                   (case keepEventLoopActive opts of None \<Rightarrow> True | Some b \<Rightarrow> b),
                 this_setSkipCacheFlag = or_false (setSkipCacheFlag opts),
                 super_blockResetDuration =
                   nullish_coalesce (blockResetDuration opts) (pollingInterval opts),
                 this_isRunning = False,
                 this_currentBlock = None,
                 ledger = (\<lambda>kind. []),
                 next_ident = 0,
                 eviction_timer = None \<rparr>))"

section \<open>Fetching\<close>

definition newline :: string where
  "newline = [CHR 0x0A]"

text \<open>The object \<^verbatim>\<open>req\<close> of \<^verbatim>\<open>_fetchLatestBlock\<close>; the spread adds the key
  \<^verbatim>\<open>skipCache\<close> only when the flag is set.\<close>

definition fetch_request :: "PollingBlockTracker \<Rightarrow> ('e fetch_env_scheme) \<Rightarrow> JsonRpcRequest" where
  "fetch_request t env =
     \<lparr> jsonrpc = ''2.0'', id' = createRandomId env,
       method' = ''eth_blockNumber'', params = [],
       skipCache = (if this_setSkipCacheFlag t then Some True else None) \<rparr>"

text \<open>\<^verbatim>\<open>_fetchLatestBlock\<close>: the request it sends, and the block number or what it
  throws.\<close>

definition fetchLatestBlock ::
  "PollingBlockTracker \<Rightarrow> ('e fetch_env_scheme) \<Rightarrow> effect list \<times> (js_value + string)" where
  "fetchLatestBlock t env =
     (let req = fetch_request t env in
      case sendAsync env req of
        Rejects thrown \<Rightarrow> ([SendAsync req], Inl thrown)
      | Resolves res \<Rightarrow>
          (case res of
             JsonRpcFailure err \<Rightarrow>
               ([SendAsync req],
                Inl (JsError (''PollingBlockTracker - encountered error fetching block:''
                              @ newline @ message err)))
           | JsonRpcSuccess result \<Rightarrow> ([SendAsync req], Inr result)))"

text \<open>
  Modelled from the spec: \<^verbatim>\<open>_newPotentialLatest\<close> is a method of the base tracker,
  which is not among the sources. Spec, section 4.3, step 2: compare with the cache; if
  it is null or the new value is strictly greater, update the cache, then emit
  \<^verbatim>\<open>sync\<close> with the old and the new value and \<^verbatim>\<open>latest\<close> with the new value, in that
  order; if not greater, emit nothing. The integer a value encodes is the parameter
  \<open>num\<close>: the spec leaves the encoding opaque.
\<close>

definition newPotentialLatest ::
  "(string \<Rightarrow> int) \<Rightarrow> PollingBlockTracker \<Rightarrow> string \<Rightarrow> PollingBlockTracker \<times> effect list" where
  "newPotentialLatest num t newBlock =
     (let oldBlock = this_currentBlock t;
          written = (t\<lparr> this_currentBlock := Some newBlock \<rparr>,
                     [Emit ''sync'' (Sync oldBlock newBlock), Emit ''latest'' (Block newBlock)]) in
      case oldBlock of
        None \<Rightarrow> written
      | Some currentBlock \<Rightarrow>
          if num currentBlock < num newBlock then written else (t, []))"

text \<open>\<^verbatim>\<open>_updateLatestBlock\<close>: fetch, then offer the block to the cache. A failed
  fetch propagates and leaves the tracker as it was.\<close>

definition updateLatestBlock ::
  "(string \<Rightarrow> int) \<Rightarrow> PollingBlockTracker \<Rightarrow> ('e fetch_env_scheme)
     \<Rightarrow> PollingBlockTracker \<times> effect list \<times> (js_value + unit)" where
  "updateLatestBlock num t env =
     (case fetchLatestBlock t env of
        (sent, Inl thrown) \<Rightarrow> (t, sent, Inl thrown)
      | (sent, Inr latestBlock) \<Rightarrow>
          (case newPotentialLatest num t latestBlock of
             (t', emitted) \<Rightarrow> (t', sent @ emitted, Inr ())))"

section \<open>The poll loop\<close>

text \<open>
  The template expression \<^verbatim>\<open>error.stack ?? error.message ?? error\<close> of the catch block.
  On \<^verbatim>\<open>null\<close> or \<^verbatim>\<open>undefined\<close> the property access throws a \<^verbatim>\<open>TypeError\<close>:
  the result is \<open>None\<close>.
\<close>

definition cause_text :: "(string \<Rightarrow> string option) \<Rightarrow> js_value \<Rightarrow> string option" where
  "cause_text engine_stack error =
     (case error of
        JsNullish \<Rightarrow> None
      | JsString s \<Rightarrow> Some s
      | JsObject stack msg rendering \<Rightarrow>
          Some (case stack of Some s \<Rightarrow> s
                | None \<Rightarrow> (case msg of Some m \<Rightarrow> m | None \<Rightarrow> rendering))
      | JsError m \<Rightarrow>
          Some (case engine_stack m of Some s \<Rightarrow> s | None \<Rightarrow> m))"

definition update_error_prefix :: string where
  "update_error_prefix =
     ''PollingBlockTracker - encountered an error while attempting to update latest block:''
     @ newline"

text \<open>Other code assigning the running flag while the loop is suspended.\<close>

definition interfere :: "bool option \<Rightarrow> PollingBlockTracker \<Rightarrow> PollingBlockTracker" where
  "interfere assigned t =
     (case assigned of None \<Rightarrow> t | Some b \<Rightarrow> t\<lparr> this_isRunning := b \<rparr>)"

text \<open>\<^verbatim>\<open>timeout(duration, unref)\<close>: the timer it sets.\<close>

definition timeout :: "number \<Rightarrow> bool \<Rightarrow> effect" where
  "timeout duration unref = SetTimeout duration unref"

datatype body_result = Completed | Threw_TypeError

text \<open>
  The body of the \<^verbatim>\<open>while\<close> loop of \<^verbatim>\<open>_synchronize\<close>: the \<^verbatim>\<open>try\<close> block, and the
  \<^verbatim>\<open>catch\<close> block when the update failed. An exception raised inside the catch block
  leaves the loop.
\<close>

definition synchronize_body ::
  "(string \<Rightarrow> int) \<Rightarrow> PollingBlockTracker \<Rightarrow> poll_env
     \<Rightarrow> PollingBlockTracker \<times> effect list \<times> body_result" where
  "synchronize_body num t env =
     (case updateLatestBlock num t env of
        (t', effects, Inr _) \<Rightarrow>
          (interfere (assigned_during_sleep env) (interfere (assigned_during_fetch env) t'),
           effects @ [timeout (this_pollingInterval t) (\<not> this_keepEventLoopActive t),
                   Emit ''_waitingForNextIteration'' NoArgs],
           Completed)
      | (t', effects, Inl error) \<Rightarrow>
          (case cause_text (error_stack env) error of
             None \<Rightarrow> (interfere (assigned_during_fetch env) t', effects, Threw_TypeError)
           | Some cause \<Rightarrow>
               (interfere (assigned_during_sleep env) (interfere (assigned_during_fetch env) t'),
                effects @ [Emit ''error'' (Err (JsError (update_error_prefix @ cause))),
                        timeout (this_retryTimeout t) (\<not> this_keepEventLoopActive t)],
                Completed)))"

text \<open>
  How a run of the loop over a finite schedule ends: the loop condition was false
  (\<open>Returned\<close>), the promise of \<^verbatim>\<open>_synchronize\<close> was rejected by an exception
  (\<open>Rejected\<close>), or the schedule is used up while the loop is still running and about to
  fetch again (\<open>Iterating\<close>).
\<close>

datatype loop_status = Returned | Rejected | Iterating

text \<open>\<^verbatim>\<open>_synchronize\<close>: one \<open>poll_env\<close> per iteration.\<close>

fun synchronize ::
  "(string \<Rightarrow> int) \<Rightarrow> PollingBlockTracker \<Rightarrow> poll_env list
     \<Rightarrow> PollingBlockTracker \<times> effect list \<times> loop_status" where
  "synchronize num t [] = (t, [], if this_isRunning t then Iterating else Returned)"
| "synchronize num t (env # envs) =
     (if \<not> this_isRunning t then (t, [], Returned)
      else
        (case synchronize_body num t env of
           (t', effects, Threw_TypeError) \<Rightarrow> (t', effects, Rejected)
         | (t', effects, Completed) \<Rightarrow>
             (case synchronize num t' envs of
                (t'', later, status) \<Rightarrow> (t'', effects @ later, status))))"

section \<open>The subscription ledger and the lifecycle controller\<close>

text \<open>
  Modelled from the spec: the base tracker, which owns the listeners and starts and
  stops the loop, is not among the sources. Spec, sections 3, 4.1 and 4.2: the driving
  event kinds are \<^verbatim>\<open>latest\<close> and \<^verbatim>\<open>sync\<close>; adding or removing a listener of a
  driving kind notifies the controller of the combined count before and after; the
  controller goes from \<^verbatim>\<open>Stopped\<close> to \<^verbatim>\<open>Running\<close> when the ledger became non-empty
  (cancelling a pending eviction timer) and from \<^verbatim>\<open>Running\<close> to \<^verbatim>\<open>Stopped\<close> when it
  became empty (arming the eviction timer if an eviction duration is configured; an
  undefined or zero duration disables eviction).
\<close>

text \<open>Modelled from the spec: the driving event kinds of the absent base tracker
  (glossary: \<^verbatim>\<open>latest\<close>, \<^verbatim>\<open>sync\<close>).\<close>

definition driving_kinds :: "string list" where
  "driving_kinds = [''latest'', ''sync'']"

text \<open>Modelled from the spec: \<^verbatim>\<open>listenerCount(kind)\<close> of the absent ledger
  (section 4.1).\<close>

definition listenerCount :: "PollingBlockTracker \<Rightarrow> string \<Rightarrow> nat" where
  "listenerCount t kind = length (ledger t kind)"

text \<open>Modelled from the spec: the ledger's combined count of \<^verbatim>\<open>latest\<close> and
  \<^verbatim>\<open>sync\<close> listeners (section 3, first invariant); the base tracker is absent.\<close>

definition driving_count :: "PollingBlockTracker \<Rightarrow> nat" where
  "driving_count t = sum_list (map (listenerCount t) driving_kinds)"

datatype ledger_transition = ledgerBecameNonEmpty | ledgerBecameEmpty

text \<open>Modelled from the spec: the transition the absent ledger reports for a count
  before and after a change (section 2: listener-count transitions of the driving
  kinds).\<close>

definition ledger_transition_of :: "nat \<Rightarrow> nat \<Rightarrow> ledger_transition option" where
  "ledger_transition_of before after =
     (if before = 0 \<and> 0 < after then Some ledgerBecameNonEmpty
      else if 0 < before \<and> after = 0 then Some ledgerBecameEmpty
      else None)"

text \<open>Modelled from the spec: the state machine of the absent lifecycle controller
  (section 4.2), on the inherited running flag and the eviction timer.\<close>

fun controller :: "ledger_transition \<Rightarrow> PollingBlockTracker \<Rightarrow> PollingBlockTracker" where
  "controller ledgerBecameNonEmpty t =
     (if this_isRunning t then t
      else t\<lparr> this_isRunning := True, eviction_timer := None \<rparr>)"
| "controller ledgerBecameEmpty t =
     (if this_isRunning t
      then t\<lparr> this_isRunning := False,
               eviction_timer :=
                 (case super_blockResetDuration t of
                    None \<Rightarrow> None
                  | Some d \<Rightarrow> if d = 0 then None else Some d) \<rparr>
      else t)"

text \<open>Modelled from the spec: the synchronous notification of the absent controller
  with the count before and after (section 4.1).\<close>

definition notify :: "nat \<Rightarrow> PollingBlockTracker \<Rightarrow> PollingBlockTracker" where
  "notify before t =
     (case ledger_transition_of before (driving_count t) of
        None \<Rightarrow> t
      | Some tr \<Rightarrow> controller tr t)"

text \<open>Modelled from the spec: \<^verbatim>\<open>subscribe(kind, listener, once)\<close> of the absent
  ledger (section 4.1); it returns the new handle.\<close>

definition subscribe ::
  "string \<Rightarrow> bool \<Rightarrow> PollingBlockTracker \<Rightarrow> handle \<times> PollingBlockTracker" where
  "subscribe kind once t =
     (let h = \<lparr> ident = next_ident t, fire_once = once \<rparr>;
          t' = t\<lparr> ledger := (ledger t)(kind := ledger t kind @ [h]),
                  next_ident := Suc (next_ident t) \<rparr> in
      (h, if kind \<in> set driving_kinds then notify (driving_count t) t' else t'))"

text \<open>Modelled from the spec: \<^verbatim>\<open>unsubscribe(kind, handle)\<close> of the absent ledger
  (section 4.1).\<close>

definition unsubscribe :: "string \<Rightarrow> handle \<Rightarrow> PollingBlockTracker \<Rightarrow> PollingBlockTracker" where
  "unsubscribe kind h t =
     (let t' = t\<lparr> ledger := (ledger t)(kind := removeAll h (ledger t kind)) \<rparr> in
      if kind \<in> set driving_kinds then notify (driving_count t) t' else t')"

text \<open>Modelled from the spec: \<^verbatim>\<open>unsubscribeAll(kind?)\<close> of the absent ledger
  (section 4.1); without a kind it clears every kind and evaluates the stop once.\<close>

definition unsubscribeAll :: "string option \<Rightarrow> PollingBlockTracker \<Rightarrow> PollingBlockTracker" where
  "unsubscribeAll which t =
     (case which of
        None \<Rightarrow> notify (driving_count t) (t\<lparr> ledger := (\<lambda>kind. []) \<rparr>)
      | Some kind \<Rightarrow>
          (let t' = t\<lparr> ledger := (ledger t)(kind := []) \<rparr> in
           if kind \<in> set driving_kinds then notify (driving_count t) t' else t'))"

text \<open>Modelled from the spec: \<^verbatim>\<open>isRunning()\<close> of the absent base tracker
  (section 6); it reads the running flag.\<close>

definition isRunning :: "PollingBlockTracker \<Rightarrow> bool" where
  "isRunning t = this_isRunning t"

text \<open>Sequences of ledger operations, applied from left to right.\<close>

datatype ledger_op =
    Subscribe string bool
  | Unsubscribe string handle
  | UnsubscribeAll "string option"

fun apply_op :: "ledger_op \<Rightarrow> PollingBlockTracker \<Rightarrow> PollingBlockTracker" where
  "apply_op (Subscribe kind once) t = snd (subscribe kind once t)"
| "apply_op (Unsubscribe kind h) t = unsubscribe kind h t"
| "apply_op (UnsubscribeAll which) t = unsubscribeAll which t"

fun apply_ops :: "ledger_op list \<Rightarrow> PollingBlockTracker \<Rightarrow> PollingBlockTracker" where
  "apply_ops [] t = t"
| "apply_ops (x # xs) t = apply_ops xs (apply_op x t)"

section \<open>The on-demand calls\<close>

datatype promise = Fulfilled string | Rejects_with js_value | Awaits_latest

text \<open>
  Modelled from the spec: \<^verbatim>\<open>getLatestBlock\<close> is a method of the base tracker, which
  is not among the sources. Spec, section 4.5: if the cache holds a non-null value it
  is returned at once with no new fetch; otherwise a one-shot listener for
  \<^verbatim>\<open>latest\<close> is registered and the call waits for the first emission.
\<close>

definition getLatestBlock :: "PollingBlockTracker \<Rightarrow> PollingBlockTracker \<times> promise" where
  "getLatestBlock t =
     (case this_currentBlock t of
        Some block \<Rightarrow> (t, Fulfilled block)
      | None \<Rightarrow> (snd (subscribe ''latest'' True t), Awaits_latest))"

text \<open>\<^verbatim>\<open>checkForLatestBlock\<close>: no \<^verbatim>\<open>try\<close> around the update, so what the update
  throws rejects the call.\<close>

definition checkForLatestBlock ::
  "(string \<Rightarrow> int) \<Rightarrow> PollingBlockTracker \<Rightarrow> ('e fetch_env_scheme)
     \<Rightarrow> PollingBlockTracker \<times> effect list \<times> promise" where
  "checkForLatestBlock num t env =
     (case updateLatestBlock num t env of
        (t', effects, Inl thrown) \<Rightarrow> (t', effects, Rejects_with thrown)
      | (t', effects, Inr _) \<Rightarrow>
          (case getLatestBlock t' of (t'', answer) \<Rightarrow> (t'', effects, answer)))"

text \<open>A decoder for the examples: the integer of a hexadecimal block number such as
  \<^verbatim>\<open>0x1f\<close>; a character that is no hexadecimal digit counts as zero.\<close>

definition hex_digit :: "char \<Rightarrow> int" where
  "hex_digit c =
     (let n = int (of_char c :: nat) in
      if 48 \<le> n \<and> n \<le> 57 then n - 48
      else if 97 \<le> n \<and> n \<le> 102 then n - 87
      else if 65 \<le> n \<and> n \<le> 70 then n - 55
      else 0)"

definition hex_value :: "string \<Rightarrow> int" where
  "hex_value s = foldl (\<lambda>acc c. 16 * acc + hex_digit c) 0 (drop 2 s)"


section \<open>Example inputs\<close>

text \<open>A running tracker with the default configuration and an empty cache.\<close>

definition example_tracker :: PollingBlockTracker where
  "example_tracker =
     \<lparr> this_provider = Provider 0, this_pollingInterval = 20000, this_retryTimeout = 2000,
       this_keepEventLoopActive = True, this_setSkipCacheFlag = False,
       super_blockResetDuration = None, this_isRunning = True, this_currentBlock = None,
       ledger = (\<lambda>kind. []), next_ident = 0, eviction_timer = None \<rparr>"

text \<open>The same tracker as the constructor leaves it.\<close>

definition stopped_tracker :: PollingBlockTracker where
  "stopped_tracker = example_tracker \<lparr> this_isRunning := False \<rparr>"

text \<open>An iteration whose provider call ends in the given outcome, on an engine that
  attaches a stack to every \<^verbatim>\<open>Error\<close>, with no interference.\<close>

definition replying :: "pify_outcome \<Rightarrow> poll_env" where
  "replying outcome =
     \<lparr> createRandomId = 7, sendAsync = (\<lambda>req. outcome),
       error_stack = (\<lambda>m. Some (''Error: '' @ m @ newline @ ''    at fetch'')),
       assigned_during_fetch = None, assigned_during_sleep = None \<rparr>"

text \<open>The lifecycle invariant: running exactly when a driving listener is registered.\<close>

definition running_iff_listeners :: "PollingBlockTracker \<Rightarrow> bool" where
  "running_iff_listeners t = (this_isRunning t = (0 < driving_count t))"


section \<open>The constructor: provider check and defaults\<close>

lemma new_fields:
  "new_PollingBlockTracker (Some opts) = Inr t \<Longrightarrow>
     this_setSkipCacheFlag t = (setSkipCacheFlag opts = Some True) \<and> \<not> this_isRunning t
     \<and> ledger t = (\<lambda>kind. []) \<and> this_currentBlock t = None"
  by (auto simp: new_PollingBlockTracker_def Let_def or_false_def split: option.splits)

text \<open>
  Claim C6. Without a provider, whether the options lack it or no options are given at
  all, the constructor throws the error with the message
  \<^verbatim>\<open>PollingBlockTracker - no provider specified.\<close> and yields no tracker, so nothing
  can enter a running state.
\<close>

theorem constructor_requires_provider:
  "new_PollingBlockTracker None = Inl (JsError ''PollingBlockTracker - no provider specified.'')
   \<and> (provider opts = None \<longrightarrow>
        new_PollingBlockTracker (Some opts)
          = Inl (JsError ''PollingBlockTracker - no provider specified.''))"
  by (simp add: new_PollingBlockTracker_def empty_options_def)

theorem constructor_requires_provider_witness:
  "new_PollingBlockTracker (Some (empty_options\<lparr> pollingInterval := Some 100 \<rparr>))
     = Inl (JsError ''PollingBlockTracker - no provider specified.'')"
  using constructor_requires_provider [of "empty_options\<lparr> pollingInterval := Some 100 \<rparr>"]
  by (simp add: empty_options_def)

text \<open>
  Claim C7. With a provider the constructor succeeds, and an option left unspecified
  resolves to its default: the polling interval to 20000, the retry timeout to a tenth
  of the polling interval, \<^verbatim>\<open>keepEventLoopActive\<close> to true, \<^verbatim>\<open>setSkipCacheFlag\<close> to
  false, and the block reset duration passed to the base tracker to the given polling
  interval.
\<close>

theorem constructor_defaults:
  "provider opts = Some p \<Longrightarrow>
     (case new_PollingBlockTracker (Some opts) of
        Inl thrown \<Rightarrow> False
      | Inr t \<Rightarrow>
          (pollingInterval opts = None \<longrightarrow> this_pollingInterval t = 20000)
          \<and> (retryTimeout opts = None \<longrightarrow> this_retryTimeout t = this_pollingInterval t / 10)
          \<and> (keepEventLoopActive opts = None \<longrightarrow> this_keepEventLoopActive t)
          \<and> (setSkipCacheFlag opts = None \<longrightarrow> \<not> this_setSkipCacheFlag t)
          \<and> (blockResetDuration opts = None \<longrightarrow>
                super_blockResetDuration t = pollingInterval opts))"
  by (simp add: new_PollingBlockTracker_def Let_def or_number_def or_false_def
        nullish_coalesce_def sec_def)

theorem constructor_defaults_witness:
  "(case new_PollingBlockTracker (Some (empty_options\<lparr> provider := Some (Provider 0) \<rparr>)) of
      Inl thrown \<Rightarrow> False
    | Inr t \<Rightarrow> this_pollingInterval t = 20000 \<and> this_retryTimeout t = 2000
        \<and> this_keepEventLoopActive t \<and> \<not> this_setSkipCacheFlag t
        \<and> super_blockResetDuration t = None)"
  using constructor_defaults [of "empty_options\<lparr> provider := Some (Provider 0) \<rparr>" "Provider 0"]
  by (simp add: empty_options_def split: sum.splits)

text \<open>
  Claim C10. A polling interval of zero is replaced by 20000 and a retry timeout of zero
  by a tenth of the polling interval, since both options are tested for falsiness; a
  block reset duration of zero is passed on to the base tracker as it is, since that
  option is tested with \<^verbatim>\<open>??\<close> only. The resolved polling interval is never zero.
\<close>

theorem zero_interval_options:
  "provider opts = Some p \<Longrightarrow>
     (case new_PollingBlockTracker (Some opts) of
        Inl thrown \<Rightarrow> False
      | Inr t \<Rightarrow>
          (pollingInterval opts = Some 0 \<longrightarrow> this_pollingInterval t = 20000)
          \<and> (retryTimeout opts = Some 0 \<longrightarrow> this_retryTimeout t = this_pollingInterval t / 10)
          \<and> (blockResetDuration opts = Some 0 \<longrightarrow> super_blockResetDuration t = Some 0)
          \<and> this_pollingInterval t \<noteq> 0)"
  by (simp add: new_PollingBlockTracker_def Let_def or_number_def
        nullish_coalesce_def sec_def split: option.splits)

theorem zero_interval_options_witness:
  "(case new_PollingBlockTracker
           (Some (empty_options\<lparr> provider := Some (Provider 0), pollingInterval := Some 0,
                    retryTimeout := Some 0, blockResetDuration := Some 0 \<rparr>)) of
      Inl thrown \<Rightarrow> False
    | Inr t \<Rightarrow> this_pollingInterval t = 20000 \<and> this_retryTimeout t = 2000
        \<and> super_blockResetDuration t = Some 0)"
  using zero_interval_options
    [of "empty_options\<lparr> provider := Some (Provider 0), pollingInterval := Some 0,
           retryTimeout := Some 0, blockResetDuration := Some 0 \<rparr>" "Provider 0"]
  by (simp add: empty_options_def split: sum.splits)

section \<open>Fetching and updating\<close>

lemma fetchLatestBlock_sent: "fst (fetchLatestBlock t env) = [SendAsync (fetch_request t env)]"
  by (simp add: fetchLatestBlock_def Let_def split: pify_outcome.splits JsonRpcResponse.splits)

lemma fetchLatestBlock_result:
  "snd (fetchLatestBlock t env) =
     (case sendAsync env (fetch_request t env) of
        Rejects thrown \<Rightarrow> Inl thrown
      | Resolves (JsonRpcFailure err) \<Rightarrow>
          Inl (JsError (''PollingBlockTracker - encountered error fetching block:''
                        @ newline @ message err))
      | Resolves (JsonRpcSuccess result) \<Rightarrow> Inr result)"
  by (simp add: fetchLatestBlock_def Let_def split: pify_outcome.splits JsonRpcResponse.splits)

lemma fetchLatestBlock_eq:
  "fetchLatestBlock t env = ([SendAsync (fetch_request t env)], snd (fetchLatestBlock t env))"
  using fetchLatestBlock_sent [of t env] by (cases "fetchLatestBlock t env") simp

text \<open>
  Claim C4. When the provider's response carries an error, the fetch throws the error
  whose message is \<^verbatim>\<open>PollingBlockTracker - encountered error fetching block:\<close>, a
  newline and the message of the error payload; otherwise it returns the result of the
  response unchanged. A failure of the transport is thrown as it is: both kinds of
  failure leave the fetch as an exception.
\<close>

theorem fetchLatestBlock_response:
  "(sendAsync env (fetch_request t env) = Resolves (JsonRpcFailure err) \<longrightarrow>
      snd (fetchLatestBlock t env)
        = Inl (JsError (''PollingBlockTracker - encountered error fetching block:''
                        @ [CHR 0x0A] @ message err)))
   \<and> (sendAsync env (fetch_request t env) = Resolves (JsonRpcSuccess result) \<longrightarrow>
        snd (fetchLatestBlock t env) = Inr result)
   \<and> (sendAsync env (fetch_request t env) = Rejects thrown \<longrightarrow>
        snd (fetchLatestBlock t env) = Inl thrown)"
  by (simp add: fetchLatestBlock_result newline_def)

theorem fetchLatestBlock_response_witness:
  "snd (fetchLatestBlock example_tracker
          (replying (Resolves (JsonRpcFailure \<lparr> code = -32000, message = ''boom'' \<rparr>))))
     = Inl (JsError (''PollingBlockTracker - encountered error fetching block:''
                     @ [CHR 0x0A] @ ''boom''))
   \<and> snd (fetchLatestBlock example_tracker (replying (Resolves (JsonRpcSuccess ''0x1''))))
       = Inr ''0x1''
   \<and> snd (fetchLatestBlock example_tracker (replying (Rejects (JsString ''boom''))))
       = Inl (JsString ''boom'')"
  using fetchLatestBlock_response
      [of "replying (Resolves (JsonRpcFailure \<lparr> code = -32000, message = ''boom'' \<rparr>))"
          example_tracker "\<lparr> code = -32000, message = ''boom'' \<rparr>" "''x''" JsNullish]
    fetchLatestBlock_response
      [of "replying (Resolves (JsonRpcSuccess ''0x1''))" example_tracker
          "\<lparr> code = 0, message = [] \<rparr>" "''0x1''" JsNullish]
    fetchLatestBlock_response
      [of "replying (Rejects (JsString ''boom''))" example_tracker
          "\<lparr> code = 0, message = [] \<rparr>" "''x''" "JsString ''boom''"]
  by (simp add: replying_def)

lemma newPotentialLatest_cases:
  "newPotentialLatest num t newBlock =
     (if (case this_currentBlock t of None \<Rightarrow> True | Some c \<Rightarrow> num c < num newBlock)
      then (t\<lparr> this_currentBlock := Some newBlock \<rparr>,
            [Emit ''sync'' (Sync (this_currentBlock t) newBlock), Emit ''latest'' (Block newBlock)])
      else (t, []))"
  by (simp add: newPotentialLatest_def Let_def split: option.splits)

lemma newPotentialLatest_flags:
  "this_isRunning (fst (newPotentialLatest num t b)) = this_isRunning t"
  "this_setSkipCacheFlag (fst (newPotentialLatest num t b)) = this_setSkipCacheFlag t"
  "this_pollingInterval (fst (newPotentialLatest num t b)) = this_pollingInterval t"
  "this_retryTimeout (fst (newPotentialLatest num t b)) = this_retryTimeout t"
  by (simp_all add: newPotentialLatest_cases)

lemma updateLatestBlock_eq:
  "updateLatestBlock num t env =
     (case snd (fetchLatestBlock t env) of
        Inl thrown \<Rightarrow> (t, [SendAsync (fetch_request t env)], Inl thrown)
      | Inr latestBlock \<Rightarrow>
          (fst (newPotentialLatest num t latestBlock),
           SendAsync (fetch_request t env) # snd (newPotentialLatest num t latestBlock),
           Inr ()))"
  unfolding updateLatestBlock_def
  by (subst fetchLatestBlock_eq) (simp split: sum.splits prod.splits)

text \<open>
  Claim C2. An update after a fetch that returned \<open>v\<close> either leaves the cached block
  as it was or overwrites it with \<open>v\<close>, and it overwrites a cached value only when
  \<open>v\<close> encodes a strictly greater integer. When \<open>v\<close> is numerically smaller than or
  equal to the cached value, the tracker is unchanged and the iteration's only effect is
  the request: neither \<^verbatim>\<open>sync\<close> nor \<^verbatim>\<open>latest\<close> is emitted.
\<close>

theorem cache_only_advances:
  "sendAsync env (fetch_request t env) = Resolves (JsonRpcSuccess v) \<Longrightarrow>
     (case updateLatestBlock num t env of
        (t', effects, outcome) \<Rightarrow>
          (this_currentBlock t' = this_currentBlock t
           \<or> (this_currentBlock t' = Some v
               \<and> (case this_currentBlock t of None \<Rightarrow> True | Some c \<Rightarrow> num c < num v)))
          \<and> (case this_currentBlock t of
                None \<Rightarrow> True
              | Some c \<Rightarrow>
                  num v \<le> num c \<longrightarrow> t' = t \<and> effects = [SendAsync (fetch_request t env)]))"
  by (simp add: updateLatestBlock_eq fetchLatestBlock_result newPotentialLatest_cases
        split: option.splits)

theorem cache_only_advances_witness:
  "(case updateLatestBlock hex_value (example_tracker\<lparr> this_currentBlock := Some ''0x1'' \<rparr>)
           (replying (Resolves (JsonRpcSuccess ''0x0''))) of
      (t', effects, outcome) \<Rightarrow>
        t' = example_tracker\<lparr> this_currentBlock := Some ''0x1'' \<rparr>
        \<and> effects = [SendAsync \<lparr> jsonrpc = ''2.0'', id' = 7, method' = ''eth_blockNumber'',
                                   params = [], skipCache = None \<rparr>])"
  using cache_only_advances
      [of "replying (Resolves (JsonRpcSuccess ''0x0''))"
          "example_tracker\<lparr> this_currentBlock := Some ''0x1'' \<rparr>" "''0x0''" hex_value]
  by (simp add: replying_def hex_value_def hex_digit_def fetch_request_def example_tracker_def
        split: prod.splits)

text \<open>
  Claim C5. When the provider call fails, \<^verbatim>\<open>checkForLatestBlock\<close> rejects with the
  failure itself (a thrown or rejected value as it is, an error payload as the error
  built from its message), leaves the tracker unchanged and has no effect but the
  request: no \<^verbatim>\<open>error\<close> event is emitted. When the call succeeds, it does one fetch
  and one update and is fulfilled with the cached block after that update.
\<close>

theorem checkForLatestBlock_outcome:
  "(sendAsync env (fetch_request t env) = Rejects thrown \<longrightarrow>
      checkForLatestBlock num t env
        = (t, [SendAsync (fetch_request t env)], Rejects_with thrown))
   \<and> (sendAsync env (fetch_request t env) = Resolves (JsonRpcFailure err) \<longrightarrow>
        checkForLatestBlock num t env
          = (t, [SendAsync (fetch_request t env)],
             Rejects_with (JsError (''PollingBlockTracker - encountered error fetching block:''
                                    @ [CHR 0x0A] @ message err))))
   \<and> (sendAsync env (fetch_request t env) = Resolves (JsonRpcSuccess v) \<longrightarrow>
        checkForLatestBlock num t env
          = (fst (newPotentialLatest num t v),
             SendAsync (fetch_request t env) # snd (newPotentialLatest num t v),
             Fulfilled (case this_currentBlock t of
                          None \<Rightarrow> v
                        | Some c \<Rightarrow> if num c < num v then v else c))
        \<and> this_currentBlock (fst (newPotentialLatest num t v))
            = Some (case this_currentBlock t of
                      None \<Rightarrow> v
                    | Some c \<Rightarrow> if num c < num v then v else c))"
  by (simp add: checkForLatestBlock_def updateLatestBlock_eq fetchLatestBlock_result
        newPotentialLatest_cases getLatestBlock_def newline_def split: option.splits)

theorem checkForLatestBlock_outcome_witness:
  "checkForLatestBlock hex_value example_tracker (replying (Rejects (JsString ''boom'')))
     = (example_tracker,
        [SendAsync \<lparr> jsonrpc = ''2.0'', id' = 7, method' = ''eth_blockNumber'', params = [],
                      skipCache = None \<rparr>],
        Rejects_with (JsString ''boom''))
   \<and> checkForLatestBlock hex_value example_tracker
         (replying (Resolves (JsonRpcFailure \<lparr> code = -32000, message = ''boom'' \<rparr>)))
       = (example_tracker,
          [SendAsync \<lparr> jsonrpc = ''2.0'', id' = 7, method' = ''eth_blockNumber'', params = [],
                        skipCache = None \<rparr>],
          Rejects_with (JsError (''PollingBlockTracker - encountered error fetching block:''
                                 @ [CHR 0x0A] @ ''boom'')))
   \<and> checkForLatestBlock hex_value (example_tracker\<lparr> this_currentBlock := Some ''0x1'' \<rparr>)
         (replying (Resolves (JsonRpcSuccess ''0x2'')))
       = (example_tracker\<lparr> this_currentBlock := Some ''0x2'' \<rparr>,
          [SendAsync \<lparr> jsonrpc = ''2.0'', id' = 7, method' = ''eth_blockNumber'', params = [],
                        skipCache = None \<rparr>,
           Emit ''sync'' (Sync (Some ''0x1'') ''0x2''), Emit ''latest'' (Block ''0x2'')],
          Fulfilled ''0x2'')"
  using checkForLatestBlock_outcome
      [of "replying (Rejects (JsString ''boom''))" example_tracker "JsString ''boom''"
          hex_value "\<lparr> code = 0, message = [] \<rparr>" "''x''"]
    checkForLatestBlock_outcome
      [of "replying (Resolves (JsonRpcFailure \<lparr> code = -32000, message = ''boom'' \<rparr>))"
          example_tracker JsNullish hex_value "\<lparr> code = -32000, message = ''boom'' \<rparr>" "''x''"]
    checkForLatestBlock_outcome
      [of "replying (Resolves (JsonRpcSuccess ''0x2''))"
          "example_tracker\<lparr> this_currentBlock := Some ''0x1'' \<rparr>" JsNullish hex_value
          "\<lparr> code = 0, message = [] \<rparr>" "''0x2''"]
  by (simp add: replying_def hex_value_def hex_digit_def fetch_request_def example_tracker_def
        newPotentialLatest_cases)


section \<open>The poll loop\<close>

lemma synchronize_body_failed:
  "snd (fetchLatestBlock t env) = Inl error \<Longrightarrow>
     synchronize_body num t env =
       (case cause_text (error_stack env) error of
          None \<Rightarrow>
            (interfere (assigned_during_fetch env) t, [SendAsync (fetch_request t env)],
             Threw_TypeError)
        | Some cause \<Rightarrow>
            (interfere (assigned_during_sleep env) (interfere (assigned_during_fetch env) t),
             [SendAsync (fetch_request t env),
              Emit ''error'' (Err (JsError (update_error_prefix @ cause))),
              SetTimeout (this_retryTimeout t) (\<not> this_keepEventLoopActive t)],
             Completed))"
  by (simp add: synchronize_body_def updateLatestBlock_eq timeout_def split: option.splits)

lemma synchronize_body_fetched:
  "snd (fetchLatestBlock t env) = Inr latestBlock \<Longrightarrow>
     synchronize_body num t env =
       (interfere (assigned_during_sleep env)
          (interfere (assigned_during_fetch env) (fst (newPotentialLatest num t latestBlock))),
        SendAsync (fetch_request t env) # snd (newPotentialLatest num t latestBlock)
          @ [SetTimeout (this_pollingInterval t) (\<not> this_keepEventLoopActive t),
             Emit ''_waitingForNextIteration'' NoArgs],
        Completed)"
  by (simp add: synchronize_body_def updateLatestBlock_eq timeout_def)

lemma synchronize_body_flag:
  "this_setSkipCacheFlag (fst (synchronize_body num t env)) = this_setSkipCacheFlag t"
  by (cases "snd (fetchLatestBlock t env)")
    (auto simp: synchronize_body_failed synchronize_body_fetched interfere_def
       newPotentialLatest_flags split: option.splits)

lemma synchronize_body_sends:
  "SendAsync req \<in> set (fst (snd (synchronize_body num t env))) \<Longrightarrow> req = fetch_request t env"
  by (cases "snd (fetchLatestBlock t env)")
    (auto simp: synchronize_body_failed synchronize_body_fetched newPotentialLatest_cases
       split: option.splits if_splits)

lemma synchronize_sends:
  "SendAsync req \<in> set (fst (snd (synchronize num t envs))) \<Longrightarrow>
     jsonrpc req = ''2.0'' \<and> method' req = ''eth_blockNumber'' \<and> params req = []
     \<and> skipCache req = (if this_setSkipCacheFlag t then Some True else None)"
proof (induction envs arbitrary: t)
  case Nil
  then show ?case by simp
next
  case (Cons env envs)
  obtain t' effects r where b: "synchronize_body num t env = (t', effects, r)"
    by (cases "synchronize_body num t env") auto
  have flag: "this_setSkipCacheFlag t' = this_setSkipCacheFlag t"
    using synchronize_body_flag [of num t env] b by simp
  have here: "SendAsync req \<in> set effects \<Longrightarrow> req = fetch_request t env"
    using synchronize_body_sends [of req num t env] b by simp
  from Cons.prems b consider "SendAsync req \<in> set effects"
    | "SendAsync req \<in> set (fst (snd (synchronize num t' envs)))"
    by (auto split: if_splits body_result.splits prod.splits)
  then show ?case
  proof cases
    case 1
    with here show ?thesis by (simp add: fetch_request_def)
  next
    case 2
    with Cons.IH [of t'] flag show ?thesis by simp
  qed
qed

text \<open>
  Claim C8. The request of a fetch has \<^verbatim>\<open>jsonrpc\<close> 2.0, the method
  \<^verbatim>\<open>eth_blockNumber\<close> and empty parameters; it carries \<^verbatim>\<open>skipCache: true\<close> when the
  tracker's flag is set and has no \<^verbatim>\<open>skipCache\<close> key otherwise; the flag is set
  exactly when the tracker was constructed with \<^verbatim>\<open>setSkipCacheFlag: true\<close>; and every
  request the poll loop sends, in any run, has this shape.
\<close>

theorem request_shape:
  "fst (fetchLatestBlock t env)
     = [SendAsync \<lparr> jsonrpc = ''2.0'', id' = createRandomId env, method' = ''eth_blockNumber'',
                     params = [],
                     skipCache = (if this_setSkipCacheFlag t then Some True else None) \<rparr>]
   \<and> (new_PollingBlockTracker (Some opts) = Inr t \<longrightarrow>
        this_setSkipCacheFlag t = (setSkipCacheFlag opts = Some True))
   \<and> (\<forall>req. SendAsync req \<in> set (fst (snd (synchronize num t envs))) \<longrightarrow>
        jsonrpc req = ''2.0'' \<and> method' req = ''eth_blockNumber'' \<and> params req = []
        \<and> skipCache req = (if this_setSkipCacheFlag t then Some True else None))"
  using synchronize_sends [of _ num t envs] new_fields [of opts t]
  by (simp add: fetchLatestBlock_sent fetch_request_def)

theorem request_shape_witness:
  "fst (fetchLatestBlock (stopped_tracker \<lparr> this_setSkipCacheFlag := True \<rparr>)
          (replying (Resolves (JsonRpcSuccess ''0x0''))))
     = [SendAsync \<lparr> jsonrpc = ''2.0'', id' = 7, method' = ''eth_blockNumber'', params = [],
                     skipCache = Some True \<rparr>]
   \<and> new_PollingBlockTracker
         (Some (empty_options \<lparr> provider := Some (Provider 0), setSkipCacheFlag := Some True \<rparr>))
       = Inr (stopped_tracker \<lparr> this_setSkipCacheFlag := True \<rparr>)
   \<and> SendAsync \<lparr> jsonrpc = ''2.0'', id' = 7, method' = ''eth_blockNumber'', params = [],
                   skipCache = Some True \<rparr>
       \<in> set (fst (snd (synchronize hex_value
                          (stopped_tracker \<lparr> this_setSkipCacheFlag := True, this_isRunning := True \<rparr>)
                          [replying (Resolves (JsonRpcSuccess ''0x0''))])))"
  using request_shape
      [of "stopped_tracker \<lparr> this_setSkipCacheFlag := True \<rparr>"
          "replying (Resolves (JsonRpcSuccess ''0x0''))"
          "empty_options \<lparr> provider := Some (Provider 0), setSkipCacheFlag := Some True \<rparr>"
          hex_value "[replying (Resolves (JsonRpcSuccess ''0x0''))]"]
  by (simp add: synchronize_body_def updateLatestBlock_eq fetchLatestBlock_result
        newPotentialLatest_cases replying_def example_tracker_def stopped_tracker_def
        fetch_request_def interfere_def timeout_def new_PollingBlockTracker_def
        empty_options_def Let_def or_number_def or_false_def nullish_coalesce_def sec_def)

text \<open>
  A failed iteration whose cause is not nullish: one \<^verbatim>\<open>error\<close> event with the prefixed
  cause text, a sleep of \<^verbatim>\<open>retryTimeout\<close>, and the loop goes on with the rest of the
  schedule.
\<close>

lemma failed_iteration_retries:
  assumes "this_isRunning t"
    and "snd (fetchLatestBlock t env) = Inl error"
    and "cause_text (error_stack env) error = Some cause"
  shows "synchronize num t (env # envs) =
     (case synchronize num
             (interfere (assigned_during_sleep env) (interfere (assigned_during_fetch env) t)) envs of
        (t', later, status) \<Rightarrow>
          (t',
           [SendAsync (fetch_request t env),
            Emit ''error'' (Err (JsError (update_error_prefix @ cause))),
            SetTimeout (this_retryTimeout t) (\<not> this_keepEventLoopActive t)] @ later,
           status))"
  using assms by (simp add: synchronize_body_failed split: prod.splits)

text \<open>
  Claim C3. The claim is that every value a fetch throws is caught by the loop, reported
  as one \<^verbatim>\<open>error\<close> event and followed by a sleep of \<^verbatim>\<open>retryTimeout\<close> and the next
  iteration. The code fails it where the provider throws \<^verbatim>\<open>undefined\<close> or
  \<^verbatim>\<open>null\<close>: the catch block reads \<^verbatim>\<open>error.stack\<close>, which throws, so the running loop
  ends rejected after the request, with no \<^verbatim>\<open>error\<close> event, no sleep, and the second
  iteration of the schedule never run.
\<close>

theorem nullish_rejection_ends_loop:
  "synchronize hex_value example_tracker
     [replying (Rejects JsNullish), replying (Resolves (JsonRpcSuccess ''0x0''))]
   = (example_tracker,
      [SendAsync \<lparr> jsonrpc = ''2.0'', id' = 7, method' = ''eth_blockNumber'', params = [],
                    skipCache = None \<rparr>],
      Rejected)"
  by (simp add: synchronize_body_def updateLatestBlock_eq fetchLatestBlock_result
        cause_text_def replying_def example_tracker_def fetch_request_def interfere_def)








section \<open>The lifecycle invariant\<close>

lemma driving_count_eq:
  "driving_count t = length (ledger t ''latest'') + length (ledger t ''sync'')"
  by (simp add: driving_count_def driving_kinds_def listenerCount_def)

lemma controller_ledger: "ledger (controller tr t) = ledger t"
  by (cases tr) simp_all

lemma notify_ledger: "ledger (notify before t) = ledger t"
  by (simp add: notify_def controller_ledger split: option.splits)

lemma driving_count_notify: "driving_count (notify before t) = driving_count t"
  by (simp add: driving_count_eq notify_ledger)

lemma notify_running:
  "this_isRunning t = (0 < before) \<Longrightarrow>
     this_isRunning (notify before t) = (0 < driving_count t)"
  by (auto simp: notify_def ledger_transition_of_def split: option.splits if_splits)

lemma apply_op_invariant:
  "running_iff_listeners t \<Longrightarrow> running_iff_listeners (apply_op x t)"
proof (cases x)
  case (Subscribe kind once)
  assume inv: "running_iff_listeners t"
  show ?thesis
  proof (cases "kind \<in> set driving_kinds")
    case True
    with inv Subscribe show ?thesis
      using notify_running
        [of "t\<lparr> ledger := (ledger t)
                   (kind := ledger t kind @ [\<lparr> ident = next_ident t, fire_once = once \<rparr>]),
                 next_ident := Suc (next_ident t) \<rparr>" "driving_count t"]
      by (simp add: running_iff_listeners_def subscribe_def Let_def driving_count_notify)
  next
    case False
    with inv Subscribe show ?thesis
      by (auto simp: running_iff_listeners_def subscribe_def Let_def driving_count_eq
            driving_kinds_def)
  qed
next
  case (Unsubscribe kind h)
  assume inv: "running_iff_listeners t"
  show ?thesis
  proof (cases "kind \<in> set driving_kinds")
    case True
    with inv Unsubscribe show ?thesis
      using notify_running
        [of "t\<lparr> ledger := (ledger t)(kind := removeAll h (ledger t kind)) \<rparr>" "driving_count t"]
      by (simp add: running_iff_listeners_def unsubscribe_def Let_def driving_count_notify)
  next
    case False
    with inv Unsubscribe show ?thesis
      by (auto simp: running_iff_listeners_def unsubscribe_def Let_def driving_count_eq
            driving_kinds_def)
  qed
next
  case (UnsubscribeAll which)
  assume inv: "running_iff_listeners t"
  show ?thesis
  proof (cases which)
    case None
    with inv UnsubscribeAll show ?thesis
      using notify_running [of "t\<lparr> ledger := (\<lambda>kind. []) \<rparr>" "driving_count t"]
      by (simp add: running_iff_listeners_def unsubscribeAll_def driving_count_notify)
  next
    case (Some kind)
    show ?thesis
    proof (cases "kind \<in> set driving_kinds")
      case True
      with inv UnsubscribeAll Some show ?thesis
        using notify_running [of "t\<lparr> ledger := (ledger t)(kind := []) \<rparr>" "driving_count t"]
        by (simp add: running_iff_listeners_def unsubscribeAll_def Let_def driving_count_notify)
    next
      case False
      with inv UnsubscribeAll Some show ?thesis
        by (auto simp: running_iff_listeners_def unsubscribeAll_def Let_def driving_count_eq
              driving_kinds_def)
    qed
  qed
qed

lemma apply_ops_invariant:
  "running_iff_listeners t \<Longrightarrow> running_iff_listeners (apply_ops ops t)"
  by (induction ops arbitrary: t) (simp_all add: apply_op_invariant)

lemma other_kind_keeps_running:
  "kind \<notin> set driving_kinds \<Longrightarrow>
     this_isRunning (apply_op (Subscribe kind once) t) = this_isRunning t
     \<and> this_isRunning (apply_op (Unsubscribe kind h) t) = this_isRunning t
     \<and> this_isRunning (apply_op (UnsubscribeAll (Some kind)) t) = this_isRunning t"
  by (simp add: subscribe_def unsubscribe_def unsubscribeAll_def Let_def)

text \<open>
  Claim C1. After any sequence of subscribe and unsubscribe operations on a newly
  constructed tracker, \<^verbatim>\<open>isRunning()\<close> is true exactly when the number of registered
  \<^verbatim>\<open>latest\<close> listeners plus the number of registered \<^verbatim>\<open>sync\<close> listeners is not
  zero; and in any state, adding a listener of another kind, removing one, or removing
  all of another kind leaves \<^verbatim>\<open>isRunning()\<close> as it was.
\<close>

theorem running_iff_driving_listeners:
  "new_PollingBlockTracker (Some opts) = Inr t0 \<Longrightarrow>
     (isRunning (apply_ops ops t0) \<longleftrightarrow>
        0 < listenerCount (apply_ops ops t0) ''latest''
            + listenerCount (apply_ops ops t0) ''sync'')
     \<and> (kind \<noteq> ''latest'' \<and> kind \<noteq> ''sync'' \<longrightarrow>
          isRunning (apply_op (Subscribe kind once) t) = isRunning t
          \<and> isRunning (apply_op (Unsubscribe kind h) t) = isRunning t
          \<and> isRunning (apply_op (UnsubscribeAll (Some kind)) t) = isRunning t)"
proof -
  assume "new_PollingBlockTracker (Some opts) = Inr t0"
  then have "running_iff_listeners t0"
    using new_fields [of opts t0] by (simp add: running_iff_listeners_def driving_count_eq)
  then have "running_iff_listeners (apply_ops ops t0)"
    by (rule apply_ops_invariant)
  then show ?thesis
    using other_kind_keeps_running [of kind once t h]
    by (simp add: running_iff_listeners_def driving_count_eq isRunning_def listenerCount_def
          driving_kinds_def)
qed

theorem running_iff_driving_listeners_witness:
  "new_PollingBlockTracker (Some (empty_options \<lparr> provider := Some (Provider 0) \<rparr>))
     = Inr stopped_tracker
   \<and> isRunning (apply_ops [Subscribe ''latest'' False, Subscribe ''sync'' True,
                             UnsubscribeAll (Some ''latest'')] stopped_tracker)
   \<and> \<not> isRunning (apply_ops [Subscribe ''latest'' False, Subscribe ''sync'' True,
                               UnsubscribeAll (Some ''latest''),
                               Unsubscribe ''sync'' \<lparr> ident = 1, fire_once = True \<rparr>]
                      stopped_tracker)
   \<and> isRunning (apply_op (Unsubscribe ''somethingElse'' \<lparr> ident = 0, fire_once = False \<rparr>)
                  example_tracker)"
  using running_iff_driving_listeners
      [of "empty_options \<lparr> provider := Some (Provider 0) \<rparr>" stopped_tracker
          "[Subscribe ''latest'' False, Subscribe ''sync'' True,
            UnsubscribeAll (Some ''latest'')]"
          "''somethingElse''" False example_tracker "\<lparr> ident = 0, fire_once = False \<rparr>"]
    running_iff_driving_listeners
      [of "empty_options \<lparr> provider := Some (Provider 0) \<rparr>" stopped_tracker
          "[Subscribe ''latest'' False, Subscribe ''sync'' True,
            UnsubscribeAll (Some ''latest''),
            Unsubscribe ''sync'' \<lparr> ident = 1, fire_once = True \<rparr>]"
          "''somethingElse''" False example_tracker "\<lparr> ident = 0, fire_once = False \<rparr>"]
  by (simp add: stopped_tracker_def example_tracker_def new_PollingBlockTracker_def
        empty_options_def Let_def or_number_def or_false_def nullish_coalesce_def sec_def
        isRunning_def listenerCount_def subscribe_def unsubscribe_def unsubscribeAll_def
        notify_def ledger_transition_of_def driving_count_def driving_kinds_def)

end
